theory Spec2Isabelle
  imports Main "HOL-Library.Sublist" "HOL-Library.Word"
begin

unbundle bit_operations_syntax

section \<open>Values of the program\<close>

text \<open>
  The handlers of \<^verbatim>\<open>app.py\<close> work on what \<^verbatim>\<open>request.get_json()\<close> returns: a Python
  value built from a JSON document. \<^verbatim>\<open>null\<close> is \<^verbatim>\<open>None\<close>, an object is a \<^verbatim>\<open>dict\<close> with
  string keys (an association list whose first binding of a key is the dict's; the parser
  leaves one binding per key), an array is a \<^verbatim>\<open>list\<close>. JSON numbers are modelled as
  integers; a number with a fraction or an exponent (a Python \<^verbatim>\<open>float\<close>) is outside the
  model.
\<close>

datatype json =
    JNull
  | JBool bool
  | JInt int
  | JStr string
  | JArr "json list"
  | JObj "(string \<times> json) list"

text \<open>One entry of a session's history, the dict literal of lines 132-136.\<close>

record turn =
  question :: json
  answer :: string
  timestamp :: string

text \<open>
  An exception as the two \<^verbatim>\<open>except\<close> clauses of \<^verbatim>\<open>ask_question\<close> see it: whether it is an
  instance of \<^verbatim>\<open>KeyError\<close>, \<^verbatim>\<open>type(e).__name__\<close> and \<^verbatim>\<open>str(e)\<close>.
\<close>

record py_exn =
  is_key_error :: bool
  type_name :: string
  message :: string

text \<open>
  What a handler takes from outside the module:
  \<^item> \<open>provider\<close>: the outcome of \<^verbatim>\<open>chain.invoke({"question": p})\<close> followed by
    \<^verbatim>\<open>response.content\<close> for this request, an exception or the answer text;
  \<^item> \<open>now\<close>: \<^verbatim>\<open>str(datetime.datetime.now())\<close> for this request;
  \<^item> \<open>str_of\<close>, \<open>repr_of\<close>: Python's \<^verbatim>\<open>str()\<close> and \<^verbatim>\<open>repr()\<close> on a value (used by the
    f-strings on values that are not strings, and by the text of a \<^verbatim>\<open>KeyError\<close>);
  \<^item> \<open>console\<close>: the outcome of \<^verbatim>\<open>print(s)\<close>, nothing when the line is written, the
    exception when it is not (a text the encoding of the console cannot write raises
    \<^verbatim>\<open>UnicodeEncodeError\<close>).
\<close>

record env =
  provider :: "json \<Rightarrow> py_exn + string"
  now :: string
  str_of :: "json \<Rightarrow> string"
  repr_of :: "json \<Rightarrow> string"
  console :: "string \<Rightarrow> py_exn option"

subsection \<open>Python operations on these values\<close>

text \<open>Truthiness, as \<^verbatim>\<open>not data\<close> tests it.\<close>

fun truthy :: "json \<Rightarrow> bool" where
  "truthy JNull = False"
| "truthy (JBool b) = b"
| "truthy (JInt i) = (i \<noteq> 0)"
| "truthy (JStr s) = (s \<noteq> [])"
| "truthy (JArr xs) = (xs \<noteq> [])"
| "truthy (JObj kvs) = (kvs \<noteq> [])"

text \<open>The name of the Python type of a value, as error messages print it.\<close>

fun py_type :: "json \<Rightarrow> string" where
  "py_type JNull = ''NoneType''"
| "py_type (JBool b) = ''bool''"
| "py_type (JInt i) = ''int''"
| "py_type (JStr s) = ''str''"
| "py_type (JArr xs) = ''list''"
| "py_type (JObj kvs) = ''dict''"

definition type_error :: "string \<Rightarrow> py_exn" where
  "type_error msg = \<lparr>is_key_error = False, type_name = ''TypeError'', message = msg\<rparr>"

definition index_error :: "string \<Rightarrow> py_exn" where
  "index_error msg = \<lparr>is_key_error = False, type_name = ''IndexError'', message = msg\<rparr>"

definition attribute_error :: "string \<Rightarrow> py_exn" where
  "attribute_error msg = \<lparr>is_key_error = False, type_name = ''AttributeError'', message = msg\<rparr>"

text \<open>\<^verbatim>\<open>str(KeyError(k))\<close> is \<^verbatim>\<open>repr(k)\<close>.\<close>

definition key_error :: "env \<Rightarrow> json \<Rightarrow> py_exn" where
  "key_error ev k = \<lparr>is_key_error = True, type_name = ''KeyError'', message = repr_of ev k\<rparr>"

text \<open>
  \<^verbatim>\<open>'question' in data\<close>: key membership on a dict, substring test on a string, element
  test on a list (only the string \<^verbatim>\<open>'question'\<close> equals it); a number or a boolean is not
  iterable. \<^verbatim>\<open>None\<close> never reaches the test (it is falsy), but raises as well.
\<close>

fun contains_question :: "json \<Rightarrow> py_exn + bool" where
  "contains_question (JObj kvs) = Inr (''question'' \<in> set (map fst kvs))"
| "contains_question (JStr s) = Inr (sublist ''question'' s)"
| "contains_question (JArr xs) = Inr (JStr ''question'' \<in> set xs)"
| "contains_question v =
     Inl (type_error (''argument of type '' @ [CHR 0x27] @ py_type v @ [CHR 0x27] @ '' is not iterable''))"

text \<open>A subscript with a string: \<^verbatim>\<open>data['question']\<close>.\<close>

fun getitem_str :: "env \<Rightarrow> json \<Rightarrow> string \<Rightarrow> py_exn + json" where
  "getitem_str ev (JObj kvs) k =
     (case map_of kvs k of None \<Rightarrow> Inl (key_error ev (JStr k)) | Some v \<Rightarrow> Inr v)"
| "getitem_str ev (JStr s) k = Inl (type_error (''string indices must be integers, not '' @ [CHR 0x27] @ ''str'' @ [CHR 0x27]))"
| "getitem_str ev (JArr xs) k = Inl (type_error ''list indices must be integers or slices, not str'')"
| "getitem_str ev v k =
     Inl (type_error ([CHR 0x27] @ py_type v @ [CHR 0x27] @ '' object is not subscriptable''))"

text \<open>\<^verbatim>\<open>data.get(k, default)\<close> on a dict.\<close>

definition dict_get_default :: "(string \<times> json) list \<Rightarrow> string \<Rightarrow> json \<Rightarrow> json" where
  "dict_get_default kvs k dflt = (case map_of kvs k of None \<Rightarrow> dflt | Some v \<Rightarrow> v)"

section \<open>The session store\<close>

text \<open>
  \<^verbatim>\<open>chat_histories\<close> is a dict keyed by whatever \<^verbatim>\<open>session_id\<close> the request carries. Python
  compares and hashes keys by value: \<^verbatim>\<open>True\<close> and \<^verbatim>\<open>1\<close> are one key, a list or a dict
  cannot be a key at all.
\<close>

datatype hkey = HNone | HNum int | HStr string

fun hash_key :: "json \<Rightarrow> hkey option" where
  "hash_key JNull = Some HNone"
| "hash_key (JBool b) = Some (HNum (if b then 1 else 0))"
| "hash_key (JInt i) = Some (HNum i)"
| "hash_key (JStr s) = Some (HStr s)"
| "hash_key (JArr xs) = None"
| "hash_key (JObj kvs) = None"

text \<open>
  The dict in insertion order, each entry with the key object it was inserted with.
\<close>

type_synonym pydict = "(json \<times> turn list) list"

fun dict_get :: "pydict \<Rightarrow> hkey \<Rightarrow> turn list option" where
  "dict_get [] k = None"
| "dict_get ((j, h) # d) k = (if hash_key j = Some k then Some h else dict_get d k)"

text \<open>\<^verbatim>\<open>d[j] = v\<close> for a hashable \<open>j\<close> with key \<open>k\<close>: an existing entry keeps its key object.\<close>

fun dict_set :: "pydict \<Rightarrow> json \<Rightarrow> hkey \<Rightarrow> turn list \<Rightarrow> pydict" where
  "dict_set [] j k v = [(j, v)]"
| "dict_set ((j', h) # d) j k v =
     (if hash_key j' = Some k then (j', v) # d else (j', h) # dict_set d j k v)"

text \<open>
  The global starts as the dict \<^verbatim>\<open>{}\<close> (line 30). \<^verbatim>\<open>clear_history\<close> rebinds it to the list
  \<^verbatim>\<open>[]\<close> (line 221), and nothing can put an element into that list afterwards, so the
  global is a dict or the empty list.
\<close>

datatype store = Dict pydict | EmptyList

definition initial_store :: store where
  "initial_store = Dict []"

definition MAX_HISTORY_LENGTH :: nat where
  "MAX_HISTORY_LENGTH = 10"

text \<open>The session ids the store knows and the history it holds for one, for stating claims.\<close>

fun sessions_of :: "store \<Rightarrow> json list" where
  "sessions_of (Dict d) = map fst d"
| "sessions_of EmptyList = []"

fun history_in :: "store \<Rightarrow> hkey \<Rightarrow> turn list option" where
  "history_in (Dict d) k = dict_get d k"
| "history_in EmptyList k = None"

section \<open>HTTP responses\<close>

text \<open>
  The JSON object each handler passes to \<^verbatim>\<open>jsonify\<close>, field by field:
  \<^item> \<open>Ask_body\<close>: \<^verbatim>\<open>answer\<close>, \<^verbatim>\<open>status\<close>, \<^verbatim>\<open>session_id\<close>, \<^verbatim>\<open>history\<close> (lines 144-149);
  \<^item> \<open>Error_body\<close>: \<^verbatim>\<open>error\<close> (lines 101, 151, 153);
  \<^item> \<open>History_body\<close>: \<^verbatim>\<open>history\<close>, \<^verbatim>\<open>count\<close>, \<^verbatim>\<open>session_id\<close> and, for an unknown session,
    \<^verbatim>\<open>error\<close> (lines 172-183);
  \<^item> \<open>Sessions_body\<close>: \<^verbatim>\<open>sessions\<close>, \<^verbatim>\<open>count\<close> (lines 191-194);
  \<^item> \<open>Session_id_body\<close>: \<^verbatim>\<open>session_id\<close>, \<^verbatim>\<open>status\<close> (lines 203-207);
  \<^item> \<open>Message_body\<close>: \<^verbatim>\<open>message\<close>, \<^verbatim>\<open>status\<close> (lines 223-226).
\<close>

datatype body =
    Ask_body string string json "turn list"
  | Error_body string
  | History_body "turn list" nat string "string option"
  | Sessions_body "json list" nat
  | Session_id_body string string
  | Message_body string string

record response =
  status_code :: nat
  payload :: body

text \<open>
  What one call of \<^verbatim>\<open>ask_question\<close> leaves behind: the response, the global afterwards
  and the prompts \<^verbatim>\<open>chain.invoke\<close> was called with, in order.
\<close>

record outcome =
  resp :: response
  store_after :: store
  calls :: "json list"

section \<open>The handlers\<close>

subsection \<open>\<^verbatim>\<open>ask_question\<close> (lines 87-153)\<close>

text \<open>
  The two \<^verbatim>\<open>except\<close> clauses (lines 150-153): every exception raised inside the
  \<^verbatim>\<open>try\<close> becomes a 500 response.
\<close>

definition caught :: "py_exn \<Rightarrow> response" where
  "caught e =
     \<lparr>status_code = 500,
      payload = Error_body
        (if is_key_error e then ''KeyError: '' @ message e
         else ''Unexpected error: '' @ type_name e @ '': '' @ message e)\<rparr>"

definition missing_question :: response where
  "missing_question =
     \<lparr>status_code = 400,
      payload = Error_body (''Missing '' @ [CHR 0x27] @ ''question'' @ [CHR 0x27] @ '' in request body'')\<rparr>"

text \<open>A value inside an f-string: a string as it is, anything else through \<^verbatim>\<open>str()\<close>.\<close>

definition format_value :: "env \<Rightarrow> json \<Rightarrow> string" where
  "format_value ev v = (case v of JStr s \<Rightarrow> s | _ \<Rightarrow> str_of ev v)"

text \<open>The lines the two \<^verbatim>\<open>print\<close> calls write (lines 106 and 130).\<close>

definition received_line :: "env \<Rightarrow> json \<Rightarrow> json \<Rightarrow> string" where
  "received_line ev session_id q =
     ''Question received from session '' @ format_value ev session_id @ '': '' @ format_value ev q"

definition response_line :: "env \<Rightarrow> json \<Rightarrow> string \<Rightarrow> string" where
  "response_line ev session_id content =
     ''Response for session: '' @ format_value ev session_id @ '':'' @ content"

text \<open>Line 119, the text one entry adds to the context.\<close>

definition render_entry :: "env \<Rightarrow> turn \<Rightarrow> string" where
  "render_entry ev entry =
     ''Human: '' @ format_value ev (question entry) @ [CHR 0x0A] @
     ''AI: '' @ answer entry @ [CHR 0x0A]"

text \<open>Lines 115-119: the loop appends to \<^verbatim>\<open>context\<close>, entry after entry.\<close>

definition build_context :: "env \<Rightarrow> turn list \<Rightarrow> string" where
  "build_context ev session_history =
     (if session_history = [] then []
      else fold (\<lambda>entry context. context @ render_entry ev entry) session_history
             (''previous conversation:'' @ [CHR 0x0A]))"

text \<open>Lines 122-124.\<close>

definition contextualize :: "env \<Rightarrow> string \<Rightarrow> json \<Rightarrow> json" where
  "contextualize ev context q =
     (if context = [] then q else JStr (context @ ''Human: '' @ format_value ev q))"

text \<open>\<^verbatim>\<open>data.get('session_id', 'default_session')\<close> (line 105).\<close>

fun get_session_id :: "json \<Rightarrow> py_exn + json" where
  "get_session_id (JObj kvs) = Inr (dict_get_default kvs ''session_id'' (JStr ''default_session''))"
| "get_session_id v =
     Inl (attribute_error ([CHR 0x27] @ py_type v @ [CHR 0x27] @ '' object has no attribute '' @
                           [CHR 0x27] @ ''get'' @ [CHR 0x27]))"

text \<open>
  \<^verbatim>\<open>chat_histories[session_id] = []\<close> when the global is the empty list: an integer (or
  boolean) index is out of range, any other index has the wrong type.
\<close>

fun list_setitem_error :: "json \<Rightarrow> py_exn" where
  "list_setitem_error (JInt i) = index_error ''list assignment index out of range''"
| "list_setitem_error (JBool b) = index_error ''list assignment index out of range''"
| "list_setitem_error v =
     type_error (''list indices must be integers or slices, not '' @ py_type v)"

text \<open>
  \<^verbatim>\<open>chat_histories[session_id:]\<close> (line 140) subscripts the dict with a slice object. Up to
  CPython 3.11 a slice is unhashable and the lookup raises this \<^verbatim>\<open>TypeError\<close>; from 3.12 on
  the slice is hashable, is never a key, and the lookup raises \<^verbatim>\<open>KeyError\<close>. Either
  way line 140 raises after the append of line 132, and the response is a 500.
\<close>

definition slice_lookup_error :: py_exn where
  "slice_lookup_error = type_error (''unhashable type: '' @ [CHR 0x27] @ ''slice'' @ [CHR 0x27])"

definition unhashable_error :: "json \<Rightarrow> py_exn" where
  "unhashable_error v = type_error (''unhashable type: '' @ [CHR 0x27] @ py_type v @ [CHR 0x27])"

text \<open>
  Lines 107-149, once \<^verbatim>\<open>question\<close> and \<^verbatim>\<open>session_id\<close> are bound and line 106 has
  printed. The \<^verbatim>\<open>print\<close> of line 130 sits between the provider's answer and the append.
\<close>

definition ask_session :: "env \<Rightarrow> store \<Rightarrow> json \<Rightarrow> json \<Rightarrow> outcome" where
  "ask_session ev st session_id q =
     (case st of
        EmptyList \<Rightarrow>
          \<lparr>resp = caught (list_setitem_error session_id), store_after = EmptyList, calls = []\<rparr>
      | Dict d \<Rightarrow>
          (case hash_key session_id of
             None \<Rightarrow>
               \<lparr>resp = caught (unhashable_error session_id), store_after = Dict d, calls = []\<rparr>
           | Some k \<Rightarrow>
               (let d1 = (if dict_get d k = None then dict_set d session_id k [] else d) in
                case dict_get d1 k of
                  None \<Rightarrow>
                    \<lparr>resp = caught (key_error ev session_id), store_after = Dict d1, calls = []\<rparr>
                | Some session_history \<Rightarrow>
                    (let context = build_context ev session_history;
                         contextualized_question = contextualize ev context q
                     in case provider ev contextualized_question of
                          Inl e \<Rightarrow>
                            \<lparr>resp = caught e, store_after = Dict d1,
                             calls = [contextualized_question]\<rparr>
                        | Inr content \<Rightarrow>
                            (case console ev (response_line ev session_id content) of
                               Some e \<Rightarrow>
                                 \<lparr>resp = caught e, store_after = Dict d1,
                                  calls = [contextualized_question]\<rparr>
                             | None \<Rightarrow>
                                 (let appended = session_history @
                                        [\<lparr>question = q, answer = content, timestamp = now ev\<rparr>];
                                      d2 = dict_set d1 session_id k appended
                                  in if length appended > MAX_HISTORY_LENGTH
                                     then \<lparr>resp = caught slice_lookup_error, store_after = Dict d2,
                                           calls = [contextualized_question]\<rparr>
                                     else \<lparr>resp = \<lparr>status_code = 200,
                                                   payload = Ask_body content ''success'' session_id
                                                               appended\<rparr>,
                                           store_after = Dict d2,
                                           calls = [contextualized_question]\<rparr>))))))"

text \<open>
  The whole handler. Its input is the outcome of \<^verbatim>\<open>request.get_json()\<close> (line 99), which
  sits inside the \<^verbatim>\<open>try\<close>: Flask raises there on a body that is not JSON, and returns the
  parsed value otherwise.
\<close>

definition ask_question :: "env \<Rightarrow> store \<Rightarrow> py_exn + json \<Rightarrow> outcome" where
  "ask_question ev st req =
     (case req of
        Inl e \<Rightarrow> \<lparr>resp = caught e, store_after = st, calls = []\<rparr>
      | Inr data \<Rightarrow>
          if \<not> truthy data then \<lparr>resp = missing_question, store_after = st, calls = []\<rparr>
          else
            (case contains_question data of
               Inl e \<Rightarrow> \<lparr>resp = caught e, store_after = st, calls = []\<rparr>
             | Inr False \<Rightarrow> \<lparr>resp = missing_question, store_after = st, calls = []\<rparr>
             | Inr True \<Rightarrow>
                 (case getitem_str ev data ''question'' of
                    Inl e \<Rightarrow> \<lparr>resp = caught e, store_after = st, calls = []\<rparr>
                  | Inr q \<Rightarrow>
                      (case get_session_id data of
                         Inl e \<Rightarrow> \<lparr>resp = caught e, store_after = st, calls = []\<rparr>
                       | Inr session_id \<Rightarrow>
                           (case console ev (received_line ev session_id q) of
                              Some e \<Rightarrow> \<lparr>resp = caught e, store_after = st, calls = []\<rparr>
                            | None \<Rightarrow> ask_session ev st session_id q)))))"

subsection \<open>\<^verbatim>\<open>get_history\<close> (lines 163-183)\<close>

text \<open>
  The argument is \<^verbatim>\<open>request.args.get('session_id')\<close>, a string when the parameter is
  there. The function assigns nothing; it returns the global as it found it.
\<close>

definition get_history :: "store \<Rightarrow> string option \<Rightarrow> response \<times> store" where
  "get_history st arg =
     (let session_id = (case arg of None \<Rightarrow> ''default_session'' | Some s \<Rightarrow> s);
          found = (case st of Dict d \<Rightarrow> dict_get d (HStr session_id) | EmptyList \<Rightarrow> None)
      in case found of
           None \<Rightarrow>
             (\<lparr>status_code = 200,
               payload = History_body [] 0 session_id
                 (Some (''No chat history found for session '' @ session_id))\<rparr>, st)
         | Some h \<Rightarrow>
             (\<lparr>status_code = 200, payload = History_body h (length h) session_id None\<rparr>, st))"

subsection \<open>\<^verbatim>\<open>get_sessions\<close> (lines 185-194)\<close>

text \<open>
  No \<^verbatim>\<open>try\<close> here: \<^verbatim>\<open>chat_histories.keys()\<close> on the list raises out of the view, and
  Flask answers with its own 500 page.
\<close>

definition get_sessions :: "store \<Rightarrow> py_exn + response" where
  "get_sessions st =
     (case st of
        Dict d \<Rightarrow> Inr \<lparr>status_code = 200, payload = Sessions_body (map fst d) (length d)\<rparr>
      | EmptyList \<Rightarrow>
          Inl (attribute_error ([CHR 0x27] @ ''list'' @ [CHR 0x27] @ '' object has no attribute '' @
                                [CHR 0x27] @ ''keys'' @ [CHR 0x27])))"

subsection \<open>\<^verbatim>\<open>clear_history\<close> (lines 213-226)\<close>

definition store_len :: "store \<Rightarrow> nat" where
  "store_len st = (case st of Dict d \<Rightarrow> length d | EmptyList \<Rightarrow> 0)"

definition clear_history :: "env \<Rightarrow> store \<Rightarrow> response \<times> store" where
  "clear_history ev st =
     (let session_count = store_len st in
      (\<lparr>status_code = 200,
        payload = Message_body
          (''Chat history cleared for all '' @ str_of ev (JInt (int session_count)) @ '' sessions'')
          ''success''\<rparr>,
       EmptyList))"

subsection \<open>\<^verbatim>\<open>generate_session\<close> (lines 196-207)\<close>

text \<open>
  \<^verbatim>\<open>uuid.uuid4()\<close> draws the identifier at random; its value, a 128-bit integer (six of
  its bits are the fixed version and variant marks), is the input here. \<^verbatim>\<open>str()\<close> of a UUID is the 32 lower-case hexadecimal digits of that integer,
  most significant first, in groups of 8, 4, 4, 4 and 12 joined by hyphens.
\<close>

definition hex_digit :: "nat \<Rightarrow> char" where
  "hex_digit n = ''0123456789abcdef'' ! n"

definition nibble :: "128 word \<Rightarrow> nat \<Rightarrow> nat" where
  "nibble u i = unat (drop_bit (4 * i) u AND 15)"

definition hex32 :: "128 word \<Rightarrow> string" where
  "hex32 u = map (\<lambda>i. hex_digit (nibble u i)) (rev [0..<32])"

definition uuid_str :: "128 word \<Rightarrow> string" where
  "uuid_str u =
     (let x = hex32 u
      in take 8 x @ ''-'' @ take 4 (drop 8 x) @ ''-'' @ take 4 (drop 12 x) @ ''-'' @
         take 4 (drop 16 x) @ ''-'' @ drop 20 x)"

definition generate_session :: "128 word \<Rightarrow> response" where
  "generate_session u =
     (let new_session_id = uuid_str u
      in \<lparr>status_code = 200, payload = Session_id_body new_session_id ''success''\<rparr>)"

section \<open>Notions for stating the properties\<close>

text \<open>The turns a dict holds for a key, none when the key is not there.\<close>

definition turns_of :: "pydict \<Rightarrow> hkey \<Rightarrow> turn list" where
  "turns_of d k = (case dict_get d k of None \<Rightarrow> [] | Some h \<Rightarrow> h)"

text \<open>
  The prompt as the specification words it (ContextBuilder, \<^verbatim>\<open>build\<close>): the new question
  unchanged for no turns; otherwise a header line, two lines per turn in stored order, and
  a last line with the new question.
\<close>

definition two_lines :: "env \<Rightarrow> turn \<Rightarrow> string" where
  "two_lines ev t =
     ''Human: '' @ format_value ev (question t) @ [CHR 0x0A] @
     ''AI: '' @ answer t @ [CHR 0x0A]"

definition spec_prompt :: "env \<Rightarrow> turn list \<Rightarrow> json \<Rightarrow> json" where
  "spec_prompt ev session_turns new_question =
     (if session_turns = [] then new_question
      else JStr (''previous conversation:'' @ [CHR 0x0A] @
                 concat (map (two_lines ev) session_turns) @
                 ''Human: '' @ format_value ev new_question))"

text \<open>The turn a successful request records.\<close>

definition recorded :: "env \<Rightarrow> json \<Rightarrow> string \<Rightarrow> turn" where
  "recorded ev q a = \<lparr>question = q, answer = a, timestamp = now ev\<rparr>"

text \<open>A sequence of \<^verbatim>\<open>POST /ask\<close> requests, each with its own environment.\<close>

definition asks :: "store \<Rightarrow> (env \<times> (py_exn + json)) list \<Rightarrow> store" where
  "asks st rs = foldl (\<lambda>s (ev, req). store_after (ask_question ev s req)) st rs"

subsection \<open>Concrete requests and environments\<close>

text \<open>The body \<^verbatim>\<open>{"question": q}\<close> and the body \<^verbatim>\<open>{"question": q, "session_id": s}\<close>.\<close>

definition question_body :: "json \<Rightarrow> py_exn + json" where
  "question_body q = Inr (JObj [(''question'', q)])"

definition session_body :: "json \<Rightarrow> json \<Rightarrow> py_exn + json" where
  "session_body q s = Inr (JObj [(''question'', q), (''session_id'', s)])"

text \<open>
  A provider that answers every prompt, and one that fails on every prompt; the console
  writes every line.
\<close>

definition answering_env :: env where
  "answering_env =
     \<lparr>provider = (\<lambda>p. Inr ''4''), now = ''2025-01-01 00:00:00'',
      str_of = (\<lambda>v. []), repr_of = (\<lambda>v. []), console = (\<lambda>s. None)\<rparr>"

definition quota_error :: py_exn where
  "quota_error = \<lparr>is_key_error = False, type_name = ''RateLimitError'', message = ''quota exceeded''\<rparr>"

definition failing_env :: env where
  "failing_env =
     \<lparr>provider = (\<lambda>p. Inl quota_error), now = ''2025-01-01 00:00:00'',
      str_of = (\<lambda>v. []), repr_of = (\<lambda>v. []), console = (\<lambda>s. None)\<rparr>"

definition eleven_questions :: "json list" where
  "eleven_questions =
     [JStr ''q1'', JStr ''q2'', JStr ''q3'', JStr ''q4'', JStr ''q5'', JStr ''q6'',
      JStr ''q7'', JStr ''q8'', JStr ''q9'', JStr ''q10'', JStr ''q11'']"

subsection \<open>Further notions\<close>

text \<open>
  The dict key of the session a request names: the \<^verbatim>\<open>session_id\<close> of an object body, or
  the default. A body that is no object names none.
\<close>

definition session_key :: "py_exn + json \<Rightarrow> hkey option" where
  "session_key req =
     (case req of
        Inr (JObj kvs) \<Rightarrow> hash_key (dict_get_default kvs ''session_id'' (JStr ''default_session''))
      | _ \<Rightarrow> None)"

text \<open>Lines 108-109: the dict with an empty history bound to a key it did not have.\<close>

definition ensured :: "pydict \<Rightarrow> json \<Rightarrow> hkey \<Rightarrow> pydict" where
  "ensured d sid k = (if dict_get d k = None then dict_set d sid k [] else d)"

text \<open>One request \<^verbatim>\<open>{"question": q}\<close> per question, all in one environment.\<close>

definition default_asks :: "env \<Rightarrow> json list \<Rightarrow> (env \<times> (py_exn + json)) list" where
  "default_asks ev qs = map (\<lambda>q. (ev, question_body q)) qs"

section \<open>Auxiliary facts\<close>

lemma dict_get_set_same: "hash_key j = Some k \<Longrightarrow> dict_get (dict_set d j k v) k = Some v"
  by (induction d) auto

lemma dict_get_set_other:
  "hash_key j = Some k \<Longrightarrow> k' \<noteq> k \<Longrightarrow> dict_get (dict_set d j k v) k' = dict_get d k'"
  by (induction d) auto

lemma fold_context:
  "fold (\<lambda>entry context. context @ render_entry ev entry) h acc =
   acc @ concat (map (render_entry ev) h)"
  by (induction h arbitrary: acc) auto

lemma build_context_closed:
  "build_context ev h =
   (if h = [] then [] else ''previous conversation:'' @ [CHR 0x0A] @ concat (map (render_entry ev) h))"
  by (simp add: build_context_def fold_context)

lemma render_two: "render_entry ev = two_lines ev"
  by (rule ext) (simp add: render_entry_def two_lines_def)

lemma prompt_refines: "contextualize ev (build_context ev h) q = spec_prompt ev h q"
  by (simp add: contextualize_def build_context_closed spec_prompt_def render_two)

lemma ensured_lookup:
  "hash_key sid = Some k \<Longrightarrow> dict_get (ensured d sid k) k = Some (turns_of d k)"
  by (auto simp: ensured_def turns_of_def dict_get_set_same)

lemma ensured_other:
  "hash_key sid = Some k \<Longrightarrow> k' \<noteq> k \<Longrightarrow> dict_get (ensured d sid k) k' = dict_get d k'"
  by (simp add: ensured_def dict_get_set_other)

lemma ask_session_dict:
  assumes "hash_key sid = Some k"
  shows "ask_session ev (Dict d) sid q =
    (case provider ev (spec_prompt ev (turns_of d k) q) of
       Inl e \<Rightarrow>
         \<lparr>resp = caught e, store_after = Dict (ensured d sid k),
          calls = [spec_prompt ev (turns_of d k) q]\<rparr>
     | Inr a \<Rightarrow>
         (case console ev (response_line ev sid a) of
            Some e \<Rightarrow>
              \<lparr>resp = caught e, store_after = Dict (ensured d sid k),
               calls = [spec_prompt ev (turns_of d k) q]\<rparr>
          | None \<Rightarrow>
              if length (turns_of d k @ [recorded ev q a]) > MAX_HISTORY_LENGTH
              then \<lparr>resp = caught slice_lookup_error,
                    store_after =
                      Dict (dict_set (ensured d sid k) sid k (turns_of d k @ [recorded ev q a])),
                    calls = [spec_prompt ev (turns_of d k) q]\<rparr>
              else \<lparr>resp = \<lparr>status_code = 200,
                            payload = Ask_body a ''success'' sid (turns_of d k @ [recorded ev q a])\<rparr>,
                    store_after =
                      Dict (dict_set (ensured d sid k) sid k (turns_of d k @ [recorded ev q a])),
                    calls = [spec_prompt ev (turns_of d k) q]\<rparr>))"
  using assms ensured_lookup [OF assms, of d]
  by (simp add: ask_session_def Let_def ensured_def [symmetric] prompt_refines recorded_def
           split: sum.split option.split)

lemma ask_question_object:
  assumes "map_of kvs ''question'' = Some q"
  shows "ask_question ev st (Inr (JObj kvs)) =
    (case console ev (received_line ev
            (dict_get_default kvs ''session_id'' (JStr ''default_session'')) q) of
       Some e \<Rightarrow> \<lparr>resp = caught e, store_after = st, calls = []\<rparr>
     | None \<Rightarrow>
         ask_session ev st (dict_get_default kvs ''session_id'' (JStr ''default_session'')) q)"
proof -
  from assms have ne: "kvs \<noteq> []" by auto
  from assms have "''question'' \<in> fst ` set kvs"
    by (metis map_of_eq_None_iff option.distinct(1))
  with ne assms show ?thesis
    by (simp add: ask_question_def)
qed

lemma ask_question_printed:
  assumes "map_of kvs ''question'' = Some q"
    and "console ev (received_line ev
           (dict_get_default kvs ''session_id'' (JStr ''default_session'')) q) = None"
  shows "ask_question ev st (Inr (JObj kvs)) =
         ask_session ev st (dict_get_default kvs ''session_id'' (JStr ''default_session'')) q"
  using assms by (simp add: ask_question_object)

lemma caught_status: "status_code (caught e) = 500"
  by (simp add: caught_def)

lemma missing_status: "status_code missing_question = 400"
  by (simp add: missing_question_def)

lemma ask_question_no_key:
  assumes "''question'' \<notin> fst ` set kvs"
  shows "ask_question ev st (Inr (JObj kvs)) =
         \<lparr>resp = missing_question, store_after = st, calls = []\<rparr>"
  using assms by (simp add: ask_question_def)

lemma ask_question_not_object:
  assumes "\<forall>kvs. req \<noteq> Inr (JObj kvs)"
  shows "store_after (ask_question ev st req) = st \<and> calls (ask_question ev st req) = [] \<and>
         status_code (resp (ask_question ev st req)) \<in> {400, 500}"
proof (cases req)
  case (Inl e)
  then show ?thesis by (simp add: ask_question_def caught_status)
next
  case (Inr data)
  with assms show ?thesis
    by (cases data) (simp_all add: ask_question_def caught_status missing_status split: bool.split)
qed

lemma answering_provider: "provider answering_env p = Inr ''4''"
  by (simp add: answering_env_def)

lemma answering_console: "console answering_env s = None"
  by (simp add: answering_env_def)

lemma failing_console: "console failing_env s = None"
  by (simp add: failing_env_def)

lemma ask_question_invalid_body:
  assumes "\<forall>kvs. req = Inr (JObj kvs) \<longrightarrow> ''question'' \<notin> fst ` set kvs"
  shows "store_after (ask_question ev st req) = st \<and> calls (ask_question ev st req) = [] \<and>
         status_code (resp (ask_question ev st req)) \<in> {400, 500}"
proof (cases "\<exists>kvs. req = Inr (JObj kvs)")
  case False
  then show ?thesis using ask_question_not_object [of req ev st] by simp
next
  case True
  then obtain kvs where "req = Inr (JObj kvs)" by blast
  with assms show ?thesis
    by (simp add: ask_question_no_key missing_status)
qed

section \<open>The claims\<close>

text \<open>
  Claim C4. For every list of turns and every new question, the prompt the code builds
  is the one the specification words: the question unchanged when there are no turns,
  otherwise the header line, the lines \<^verbatim>\<open>Human: <question>\<close> and \<^verbatim>\<open>AI: <answer>\<close> of each
  turn in stored order with their full text, and a last line \<^verbatim>\<open>Human: <new question>\<close>.
  It is a function of the turns and the question, and a text (a string) stands in it as
  it is. When the handler gets as far as the provider (line 106 has printed), it calls the
  provider with exactly this prompt, built from the turns stored for the session of the
  request.
\<close>
theorem contextualized_prompt:
  "contextualize ev (build_context ev session_turns) q = spec_prompt ev session_turns q \<and>
   format_value ev (JStr s) = s \<and>
   (map_of kvs ''question'' = Some q \<and>
    hash_key (dict_get_default kvs ''session_id'' (JStr ''default_session'')) = Some k \<and>
    console ev (received_line ev
      (dict_get_default kvs ''session_id'' (JStr ''default_session'')) q) = None \<longrightarrow>
    calls (ask_question ev (Dict d) (Inr (JObj kvs))) = [spec_prompt ev (turns_of d k) q])"
proof (intro conjI impI)
  show "contextualize ev (build_context ev session_turns) q = spec_prompt ev session_turns q"
    by (rule prompt_refines)
next
  show "format_value ev (JStr s) = s"
    by (simp add: format_value_def)
next
  assume a: "map_of kvs ''question'' = Some q \<and>
    hash_key (dict_get_default kvs ''session_id'' (JStr ''default_session'')) = Some k \<and>
    console ev (received_line ev
      (dict_get_default kvs ''session_id'' (JStr ''default_session'')) q) = None"
  then have "ask_question ev (Dict d) (Inr (JObj kvs)) =
      ask_session ev (Dict d) (dict_get_default kvs ''session_id'' (JStr ''default_session'')) q"
    by (simp add: ask_question_printed)
  with a show "calls (ask_question ev (Dict d) (Inr (JObj kvs))) = [spec_prompt ev (turns_of d k) q]"
    by (simp add: ask_session_dict split: sum.split option.split)
qed

theorem contextualized_prompt_witness:
  "map_of [(''question'', JStr ''And 3+3?'')] ''question'' = Some (JStr ''And 3+3?'') \<and>
   hash_key (dict_get_default [(''question'', JStr ''And 3+3?'')] ''session_id''
              (JStr ''default_session'')) = Some (HStr ''default_session'') \<and>
   console answering_env (received_line answering_env
      (dict_get_default [(''question'', JStr ''And 3+3?'')] ''session_id''
         (JStr ''default_session'')) (JStr ''And 3+3?'')) = None \<and>
   calls (ask_question answering_env
            (Dict [(JStr ''default_session'',
                    [\<lparr>question = JStr ''What is 2+2?'', answer = ''4'', timestamp = ''t''\<rparr>])])
            (Inr (JObj [(''question'', JStr ''And 3+3?'')]))) =
     [JStr (''previous conversation:'' @ [CHR 0x0A] @ ''Human: What is 2+2?'' @ [CHR 0x0A] @
            ''AI: 4'' @ [CHR 0x0A] @ ''Human: And 3+3?'')]"
proof -
  have h: "map_of [(''question'', JStr ''And 3+3?'')] ''question'' = Some (JStr ''And 3+3?'') \<and>
   hash_key (dict_get_default [(''question'', JStr ''And 3+3?'')] ''session_id''
              (JStr ''default_session'')) = Some (HStr ''default_session'') \<and>
   console answering_env (received_line answering_env
      (dict_get_default [(''question'', JStr ''And 3+3?'')] ''session_id''
         (JStr ''default_session'')) (JStr ''And 3+3?'')) = None"
    by (simp add: dict_get_default_def answering_console)
  from h contextualized_prompt [where ev = answering_env and q = "JStr ''And 3+3?''"
      and kvs = "[(''question'', JStr ''And 3+3?'')]" and k = "HStr ''default_session''"
      and d = "[(JStr ''default_session'',
          [\<lparr>question = JStr ''What is 2+2?'', answer = ''4'', timestamp = ''t''\<rparr>])]"]
  have "calls (ask_question answering_env
            (Dict [(JStr ''default_session'',
                    [\<lparr>question = JStr ''What is 2+2?'', answer = ''4'', timestamp = ''t''\<rparr>])])
            (Inr (JObj [(''question'', JStr ''And 3+3?'')]))) =
     [spec_prompt answering_env
        (turns_of [(JStr ''default_session'',
            [\<lparr>question = JStr ''What is 2+2?'', answer = ''4'', timestamp = ''t''\<rparr>])]
          (HStr ''default_session'')) (JStr ''And 3+3?'')]"
    by blast
  with h show ?thesis
    by (simp add: spec_prompt_def turns_of_def two_lines_def format_value_def)
qed

text \<open>
  What a request answered with status 200 has done: its body is an object with a
  \<^verbatim>\<open>question\<close>, the provider answered the prompt built for it, the history afterwards is the
  history before with one more turn, made of the question as the request gave it, the
  answer and the timestamp, and the response carries the answer, \<^verbatim>\<open>"success"\<close>, the
  session id and that same history, of at most \<open>MAX_HISTORY_LENGTH\<close> turns.
\<close>

lemma ask_status_200:
  assumes "status_code (resp (ask_question ev st req)) = 200"
  shows "\<exists>kvs q k d a.
     req = Inr (JObj kvs) \<and> map_of kvs ''question'' = Some q \<and>
     hash_key (dict_get_default kvs ''session_id'' (JStr ''default_session'')) = Some k \<and>
     st = Dict d \<and>
     provider ev (spec_prompt ev (turns_of d k) q) = Inr a \<and>
     history_in (store_after (ask_question ev st req)) k =
       Some (turns_of d k @ [\<lparr>question = q, answer = a, timestamp = now ev\<rparr>]) \<and>
     length (turns_of d k @ [\<lparr>question = q, answer = a, timestamp = now ev\<rparr>]) \<le> MAX_HISTORY_LENGTH \<and>
     resp (ask_question ev st req) =
       \<lparr>status_code = 200,
        payload = Ask_body a ''success''
          (dict_get_default kvs ''session_id'' (JStr ''default_session''))
          (turns_of d k @ [\<lparr>question = q, answer = a, timestamp = now ev\<rparr>])\<rparr>"
proof -
  from assms ask_question_not_object [of req ev st]
  obtain kvs where req: "req = Inr (JObj kvs)" by auto
  have "''question'' \<in> fst ` set kvs"
  proof (rule ccontr)
    assume "''question'' \<notin> fst ` set kvs"
    with assms req show False
      by (simp add: ask_question_no_key missing_status)
  qed
  then obtain q where q: "map_of kvs ''question'' = Some q"
    by (metis map_of_eq_None_iff not_Some_eq)
  let ?sid = "dict_get_default kvs ''session_id'' (JStr ''default_session'')"
  have "console ev (received_line ev ?sid q) = None"
  proof (cases "console ev (received_line ev ?sid q)")
    case (Some e)
    with assms req q show ?thesis
      by (simp add: ask_question_object caught_status)
  qed simp
  then have eq: "ask_question ev st req = ask_session ev st ?sid q"
    using req q by (simp add: ask_question_printed)
  from assms eq obtain d where st: "st = Dict d"
    by (cases st) (simp_all add: ask_session_def caught_status)
  from assms eq st obtain k where k: "hash_key ?sid = Some k"
    by (cases "hash_key ?sid") (simp_all add: ask_session_def caught_status)
  note full = ask_session_dict [OF k, of ev d q]
  from assms eq st full obtain a where a: "provider ev (spec_prompt ev (turns_of d k) q) = Inr a"
    by (cases "provider ev (spec_prompt ev (turns_of d k) q)") (simp_all add: caught_status)
  from assms eq st full a have c: "console ev (response_line ev ?sid a) = None"
    by (cases "console ev (response_line ev ?sid a)") (simp_all add: caught_status)
  from assms eq st full a c
  have len: "\<not> length (turns_of d k @ [recorded ev q a]) > MAX_HISTORY_LENGTH"
    by (auto simp: caught_status split: if_splits)
  from eq st full a c len k show ?thesis
    apply (intro exI [of _ kvs] exI [of _ q] exI [of _ k] exI [of _ d] exI [of _ a])
    apply (simp add: req q recorded_def dict_get_set_same)
    done
qed

text \<open>
  Claim C7. A request to a session that already holds \<open>MAX_HISTORY_LENGTH\<close> turns or more,
  which passes the validation and which the provider answers: the turn with the original
  question, the answer and the timestamp is appended, and the history is left uncapped;
  the response is the 500 of the \<^verbatim>\<open>except\<close> clause for the error of line 140, with no
  answer, no session id and no history in it.
\<close>
theorem ask_at_cap_answers_500:
  assumes "map_of kvs ''question'' = Some q"
    and "hash_key (dict_get_default kvs ''session_id'' (JStr ''default_session'')) = Some k"
    and "console ev (received_line ev
           (dict_get_default kvs ''session_id'' (JStr ''default_session'')) q) = None"
    and "provider ev (spec_prompt ev (turns_of d k) q) = Inr a"
    and "console ev (response_line ev
           (dict_get_default kvs ''session_id'' (JStr ''default_session'')) a) = None"
    and "MAX_HISTORY_LENGTH \<le> length (turns_of d k)"
  shows "resp (ask_question ev (Dict d) (Inr (JObj kvs))) = caught slice_lookup_error \<and>
         status_code (resp (ask_question ev (Dict d) (Inr (JObj kvs)))) = 500 \<and>
         history_in (store_after (ask_question ev (Dict d) (Inr (JObj kvs)))) k =
           Some (turns_of d k @ [\<lparr>question = q, answer = a, timestamp = now ev\<rparr>])"
proof -
  let ?sid = "dict_get_default kvs ''session_id'' (JStr ''default_session'')"
  have "ask_question ev (Dict d) (Inr (JObj kvs)) = ask_session ev (Dict d) ?sid q"
    using assms(1,3) by (rule ask_question_printed)
  also have "\<dots> =
      \<lparr>resp = caught slice_lookup_error,
       store_after = Dict (dict_set (ensured d ?sid k) ?sid k (turns_of d k @ [recorded ev q a])),
       calls = [spec_prompt ev (turns_of d k) q]\<rparr>"
    using assms(4,5,6) by (simp add: ask_session_dict [OF assms(2)])
  finally show ?thesis
    using assms(2) by (simp add: caught_status dict_get_set_same recorded_def)
qed

theorem ask_at_cap_answers_500_witness:
  "map_of [(''question'', JStr ''q11'')] ''question'' = Some (JStr ''q11'') \<and>
   provider answering_env
     (spec_prompt answering_env
        (turns_of [(JStr ''default_session'',
                    replicate 10 \<lparr>question = JStr ''q'', answer = ''4'', timestamp = ''t''\<rparr>)]
           (HStr ''default_session'')) (JStr ''q11'')) = Inr ''4'' \<and>
   MAX_HISTORY_LENGTH \<le>
     length (turns_of [(JStr ''default_session'',
                        replicate 10 \<lparr>question = JStr ''q'', answer = ''4'', timestamp = ''t''\<rparr>)]
               (HStr ''default_session'')) \<and>
   status_code (resp (ask_question answering_env
      (Dict [(JStr ''default_session'',
              replicate 10 \<lparr>question = JStr ''q'', answer = ''4'', timestamp = ''t''\<rparr>)])
      (Inr (JObj [(''question'', JStr ''q11'')])))) = 500 \<and>
   history_in (store_after (ask_question answering_env
      (Dict [(JStr ''default_session'',
              replicate 10 \<lparr>question = JStr ''q'', answer = ''4'', timestamp = ''t''\<rparr>)])
      (Inr (JObj [(''question'', JStr ''q11'')])))) (HStr ''default_session'') =
     Some (replicate 10 \<lparr>question = JStr ''q'', answer = ''4'', timestamp = ''t''\<rparr> @
           [\<lparr>question = JStr ''q11'', answer = ''4'', timestamp = ''2025-01-01 00:00:00''\<rparr>])"
proof -
  let ?d = "[(JStr ''default_session'',
              replicate 10 \<lparr>question = JStr ''q'', answer = ''4'', timestamp = ''t''\<rparr>)]"
  have m: "map_of [(''question'', JStr ''q11'')] ''question'' = Some (JStr ''q11'')"
    by simp
  have k: "hash_key (dict_get_default [(''question'', JStr ''q11'')] ''session_id''
              (JStr ''default_session'')) = Some (HStr ''default_session'')"
    by (simp add: dict_get_default_def)
  have t: "turns_of ?d (HStr ''default_session'') =
           replicate 10 \<lparr>question = JStr ''q'', answer = ''4'', timestamp = ''t''\<rparr>"
    by (simp add: turns_of_def)
  have l: "MAX_HISTORY_LENGTH \<le> length (turns_of ?d (HStr ''default_session''))"
    unfolding t by (simp add: MAX_HISTORY_LENGTH_def)
  have n: "now answering_env = ''2025-01-01 00:00:00''"
    by (simp add: answering_env_def)
  from ask_at_cap_answers_500 [OF m k answering_console answering_provider answering_console l]
  show ?thesis
    using m l answering_provider unfolding t n by (simp add: caught_status)
qed

lemma ask_session_frame:
  assumes "hash_key sid \<noteq> Some t"
  shows "history_in (store_after (ask_session ev st sid q)) t = history_in st t"
proof (cases st)
  case EmptyList
  then show ?thesis by (simp add: ask_session_def)
next
  case (Dict d)
  show ?thesis
  proof (cases "hash_key sid")
    case None
    with Dict show ?thesis by (simp add: ask_session_def)
  next
    case (Some k)
    with assms have "t \<noteq> k" by simp
    with Dict Some show ?thesis
      by (simp add: ask_session_dict dict_get_set_other ensured_other
            split: sum.split option.split)
  qed
qed

lemma ask_frame_any:
  assumes "session_key req \<noteq> Some t"
  shows "history_in (store_after (ask_question ev st req)) t = history_in st t"
proof (cases "\<exists>kvs. req = Inr (JObj kvs)")
  case False
  then show ?thesis using ask_question_not_object [of req ev st] by simp
next
  case True
  then obtain kvs where req: "req = Inr (JObj kvs)" by blast
  show ?thesis
  proof (cases "map_of kvs ''question''")
    case None
    then have "''question'' \<notin> fst ` set kvs" by (simp add: map_of_eq_None_iff)
    with req show ?thesis by (simp add: ask_question_no_key)
  next
    case (Some q)
    with req assms show ?thesis
      by (simp add: ask_question_object ask_session_frame session_key_def split: option.split)
  qed
qed

text \<open>
  Claim C10. A request answered with status 200 leaves the history of every other session
  as it was: for every key \<open>t\<close> that is not the key of the session the request names, the
  store holds for \<open>t\<close> afterwards what it held before. Session ids are compared as Python
  compares dict keys.
\<close>
theorem ask_success_frame:
  assumes "status_code (resp (ask_question ev st req)) = 200"
    and "session_key req \<noteq> Some t"
  shows "history_in (store_after (ask_question ev st req)) t = history_in st t"
  using assms(2) by (rule ask_frame_any)

theorem ask_success_frame_witness:
  "status_code (resp (ask_question answering_env
       (Dict [(JStr ''other'', [\<lparr>question = JStr ''hi'', answer = ''hello'', timestamp = ''t''\<rparr>])])
       (question_body (JStr ''What is 2+2?'')))) = 200 \<and>
   session_key (question_body (JStr ''What is 2+2?'')) \<noteq> Some (HStr ''other'') \<and>
   history_in (store_after (ask_question answering_env
       (Dict [(JStr ''other'', [\<lparr>question = JStr ''hi'', answer = ''hello'', timestamp = ''t''\<rparr>])])
       (question_body (JStr ''What is 2+2?'')))) (HStr ''other'') =
     Some [\<lparr>question = JStr ''hi'', answer = ''hello'', timestamp = ''t''\<rparr>]"
proof -
  have m: "map_of [(''question'', JStr ''What is 2+2?'')] ''question'' = Some (JStr ''What is 2+2?'')"
    by simp
  have k: "hash_key (dict_get_default [(''question'', JStr ''What is 2+2?'')] ''session_id''
              (JStr ''default_session'')) = Some (HStr ''default_session'')"
    by (simp add: dict_get_default_def)
  have h: "status_code (resp (ask_question answering_env
       (Dict [(JStr ''other'', [\<lparr>question = JStr ''hi'', answer = ''hello'', timestamp = ''t''\<rparr>])])
       (question_body (JStr ''What is 2+2?'')))) = 200"
    unfolding question_body_def ask_question_object [OF m] ask_session_dict [OF k]
    by (simp add: answering_provider answering_console turns_of_def MAX_HISTORY_LENGTH_def)
  have s: "session_key (question_body (JStr ''What is 2+2?'')) \<noteq> Some (HStr ''other'')"
    by (simp add: session_key_def question_body_def dict_get_default_def)
  from h s ask_success_frame [OF h s] show ?thesis by simp
qed

lemma asks_Nil: "asks st [] = st"
  by (simp add: asks_def)

lemma asks_Cons: "asks st ((ev, req) # rs) = asks (store_after (ask_question ev st req)) rs"
  by (simp add: asks_def)

lemma asks_snoc: "asks st (rs @ [(ev, req)]) = store_after (ask_question ev (asks st rs) req)"
  by (simp add: asks_def)

text \<open>
  A session no request has named is not in the store: requests to \<^verbatim>\<open>/ask\<close> create no
  entry but the one of the session they name.
\<close>

lemma unasked_session_absent:
  assumes "history_in st t = None"
    and "\<forall>(ev, req) \<in> set rs. session_key req \<noteq> Some t"
  shows "history_in (asks st rs) t = None"
  using assms
proof (induction rs arbitrary: st)
  case Nil
  then show ?case by (simp add: asks_Nil)
next
  case (Cons r rs)
  obtain ev req where r: "r = (ev, req)" by (cases r)
  with Cons.prems have "history_in (store_after (ask_question ev st req)) t = None"
    by (simp add: ask_frame_any)
  with Cons.IH [of "store_after (ask_question ev st req)"] Cons.prems r show ?case
    by (simp add: asks_Cons)
qed

lemma ask_store_on_answer:
  assumes "map_of kvs ''question'' = Some q"
    and "hash_key (dict_get_default kvs ''session_id'' (JStr ''default_session'')) = Some k"
    and "provider ev (spec_prompt ev (turns_of d k) q) = Inr a"
    and "\<forall>s. console ev s = None"
  shows "\<exists>d'. store_after (ask_question ev (Dict d) (Inr (JObj kvs))) = Dict d' \<and>
              turns_of d' k = turns_of d k @ [recorded ev q a]"
  using assms
  by (simp add: ask_question_object ask_session_dict turns_of_def [of "dict_set _ _ _ _"]
        dict_get_set_same)

lemma default_asks_record_all:
  assumes "\<forall>p. provider ev p = Inr a" and "\<forall>s. console ev s = None"
  shows "\<exists>d'. asks (Dict d) (default_asks ev qs) = Dict d' \<and>
              turns_of d' (HStr ''default_session'') =
                turns_of d (HStr ''default_session'') @ map (\<lambda>q. recorded ev q a) qs"
proof (induction qs arbitrary: d)
  case Nil
  then show ?case by (simp add: default_asks_def asks_Nil)
next
  case (Cons q qs)
  have "\<exists>d1. store_after (ask_question ev (Dict d) (Inr (JObj [(''question'', q)]))) = Dict d1 \<and>
              turns_of d1 (HStr ''default_session'') =
                turns_of d (HStr ''default_session'') @ [recorded ev q a]"
    using assms by (intro ask_store_on_answer) (simp_all add: dict_get_default_def)
  then obtain d1 where
    d1: "store_after (ask_question ev (Dict d) (question_body q)) = Dict d1"
      "turns_of d1 (HStr ''default_session'') =
         turns_of d (HStr ''default_session'') @ [recorded ev q a]"
    by (auto simp: question_body_def)
  from Cons.IH [of d1] d1 show ?case
    by (simp add: default_asks_def asks_Cons)
qed

text \<open>
  Claim C1. Eleven requests to the default session, each answered by the provider, from
  the initial store: the history afterwards holds all eleven turns, the oldest included,
  one more than \<open>MAX_HISTORY_LENGTH\<close>, and the eleventh request is answered with status 500.
\<close>
theorem eleventh_turn_not_trimmed:
  "history_in (asks initial_store (default_asks answering_env eleven_questions))
     (HStr ''default_session'') =
     Some (map (\<lambda>q. recorded answering_env q ''4'') eleven_questions) \<and>
   length eleven_questions = 11 \<and>
   status_code (resp (ask_question answering_env
      (asks initial_store (default_asks answering_env (butlast eleven_questions)))
      (question_body (last eleven_questions)))) = 500"
proof (intro conjI)
  have a: "\<forall>p. provider answering_env p = Inr ''4''" by (simp add: answering_provider)
  have c: "\<forall>s. console answering_env s = None" by (simp add: answering_console)
  from default_asks_record_all [OF a c, of "[]" eleven_questions]
  obtain d' where d': "asks initial_store (default_asks answering_env eleven_questions) = Dict d'"
     "turns_of d' (HStr ''default_session'') = map (\<lambda>q. recorded answering_env q ''4'') eleven_questions"
    by (auto simp: initial_store_def turns_of_def)
  have "dict_get d' (HStr ''default_session'') \<noteq> None"
    using d'(2) by (auto simp: turns_of_def eleven_questions_def split: option.splits)
  with d' show "history_in (asks initial_store (default_asks answering_env eleven_questions))
     (HStr ''default_session'') = Some (map (\<lambda>q. recorded answering_env q ''4'') eleven_questions)"
    by (auto simp: turns_of_def)
  show "length eleven_questions = 11" by (simp add: eleven_questions_def)
  from default_asks_record_all [OF a c, of "[]" "butlast eleven_questions"]
  obtain d10 where d10: "asks initial_store (default_asks answering_env (butlast eleven_questions)) = Dict d10"
     "turns_of d10 (HStr ''default_session'') =
        map (\<lambda>q. recorded answering_env q ''4'') (butlast eleven_questions)"
    by (auto simp: initial_store_def turns_of_def)
  have l: "length (turns_of d10 (HStr ''default_session'')) = 10"
    by (simp add: d10(2) eleven_questions_def)
  have m: "map_of [(''question'', last eleven_questions)] ''question'' = Some (last eleven_questions)"
    by simp
  have k: "hash_key (dict_get_default [(''question'', last eleven_questions)] ''session_id''
              (JStr ''default_session'')) = Some (HStr ''default_session'')"
    by (simp add: dict_get_default_def)
  show "status_code (resp (ask_question answering_env
      (asks initial_store (default_asks answering_env (butlast eleven_questions)))
      (question_body (last eleven_questions)))) = 500"
    unfolding d10(1) question_body_def ask_question_object [OF m] ask_session_dict [OF k]
    by (simp add: answering_provider answering_console l MAX_HISTORY_LENGTH_def caught_status)
qed

text \<open>
  Claim C2. After \<^verbatim>\<open>clear_history\<close>, on any store, \<^verbatim>\<open>get_sessions\<close> raises instead of
  returning an empty list, and a request to \<^verbatim>\<open>/ask\<close> is answered with status 500 without
  the provider being called, where the same request on the initial store is answered with
  status 200 and \<^verbatim>\<open>get_sessions\<close> on the initial store returns the empty list and count 0.
\<close>
theorem sessions_after_clear_raises:
  "get_sessions (snd (clear_history ev st)) =
     Inl (attribute_error ([CHR 0x27] @ ''list'' @ [CHR 0x27] @ '' object has no attribute '' @
                           [CHR 0x27] @ ''keys'' @ [CHR 0x27])) \<and>
   status_code (resp (ask_question answering_env (snd (clear_history ev st))
                        (question_body (JStr ''What is 2+2?'')))) = 500 \<and>
   calls (ask_question answering_env (snd (clear_history ev st))
            (question_body (JStr ''What is 2+2?''))) = [] \<and>
   status_code (resp (ask_question answering_env initial_store
                        (question_body (JStr ''What is 2+2?'')))) = 200 \<and>
   get_sessions initial_store = Inr \<lparr>status_code = 200, payload = Sessions_body [] 0\<rparr>"
proof -
  have m: "map_of [(''question'', JStr ''What is 2+2?'')] ''question'' = Some (JStr ''What is 2+2?'')"
    by simp
  have k: "hash_key (dict_get_default [(''question'', JStr ''What is 2+2?'')] ''session_id''
              (JStr ''default_session'')) = Some (HStr ''default_session'')"
    by (simp add: dict_get_default_def)
  show ?thesis
    unfolding question_body_def ask_question_object [OF m] initial_store_def
      ask_session_dict [OF k]
    by (simp add: clear_history_def get_sessions_def ask_session_def caught_status
          answering_provider answering_console turns_of_def MAX_HISTORY_LENGTH_def)
qed

text \<open>
  Claim C5. The body \<^verbatim>\<open>5\<close>, a JSON number and so no object with a \<^verbatim>\<open>question\<close>, is
  answered with status 500, not with the 400 response.
\<close>
theorem number_body_answers_500:
  "status_code (resp (ask_question ev st (Inr (JInt 5)))) = 500 \<and>
   resp (ask_question ev st (Inr (JInt 5))) \<noteq> missing_question"
  by (simp add: ask_question_def caught_def missing_question_def)

text \<open>
  Claim C6. For a session id the store does not hold, \<^verbatim>\<open>get_history\<close> answers with status
  200, an empty history, count 0 and the informational error field, and leaves the store
  as it was: no entry is created.
\<close>
theorem history_of_unknown_session:
  assumes "history_in st (HStr sid) = None"
  shows "get_history st (Some sid) =
     (\<lparr>status_code = 200,
       payload = History_body [] 0 sid (Some (''No chat history found for session '' @ sid))\<rparr>,
      st)"
  using assms by (cases st) (simp_all add: get_history_def)

theorem history_of_unknown_session_witness:
  "history_in initial_store (HStr ''abc'') = None \<and>
   get_history initial_store (Some ''abc'') =
     (\<lparr>status_code = 200,
       payload = History_body [] 0 ''abc'' (Some ''No chat history found for session abc'')\<rparr>,
      initial_store)"
proof -
  have h: "history_in initial_store (HStr ''abc'') = None"
    by (simp add: initial_store_def)
  from h history_of_unknown_session [OF h] show ?thesis by simp
qed

lemma calls_singleton:
  assumes "calls (ask_question ev st req) = [p]"
  shows "\<exists>kvs q k d. req = Inr (JObj kvs) \<and> map_of kvs ''question'' = Some q \<and>
           hash_key (dict_get_default kvs ''session_id'' (JStr ''default_session'')) = Some k \<and>
           console ev (received_line ev
             (dict_get_default kvs ''session_id'' (JStr ''default_session'')) q) = None \<and>
           st = Dict d \<and> p = spec_prompt ev (turns_of d k) q"
proof -
  from assms ask_question_not_object [of req ev st]
  obtain kvs where req: "req = Inr (JObj kvs)" by auto
  have "''question'' \<in> fst ` set kvs"
  proof (rule ccontr)
    assume "''question'' \<notin> fst ` set kvs"
    with assms req show False by (simp add: ask_question_no_key)
  qed
  then obtain q where q: "map_of kvs ''question'' = Some q"
    by (metis map_of_eq_None_iff not_Some_eq)
  let ?sid = "dict_get_default kvs ''session_id'' (JStr ''default_session'')"
  have c: "console ev (received_line ev ?sid q) = None"
  proof (cases "console ev (received_line ev ?sid q)")
    case (Some e)
    with assms req q show ?thesis
      by (simp add: ask_question_object)
  qed simp
  then have eq: "ask_question ev st req = ask_session ev st ?sid q"
    using req q by (simp add: ask_question_printed)
  from assms eq obtain d where st: "st = Dict d"
    by (cases st) (simp_all add: ask_session_def)
  from assms eq st obtain k where k: "hash_key ?sid = Some k"
    by (cases "hash_key ?sid") (simp_all add: ask_session_def)
  from assms eq st have "p = spec_prompt ev (turns_of d k) q"
    by (simp add: ask_session_dict [OF k] split: sum.splits option.splits if_splits)
  with req q k c st show ?thesis by blast
qed

lemma ensured_history:
  assumes "hash_key sid = Some k"
  shows "dict_get (ensured d sid k) t = dict_get d t \<or>
         (t = k \<and> dict_get d t = None \<and> dict_get (ensured d sid k) t = Some [])"
proof (cases "t = k")
  case True
  with assms show ?thesis
    by (auto simp: ensured_def dict_get_set_same)
next
  case False
  with assms show ?thesis by (simp add: ensured_other)
qed

text \<open>
  Claim C3, as amended. When the provider call of a request fails, the response has status
  500 and its error text ends with the text of the provider's exception, and no turn is
  recorded: every history the store held is as it was. The session the request names is
  in the store afterwards, with the history it had, or with an empty one when the store
  did not hold it (lines 108-109 run before the provider is called); no other session
  appears.
\<close>
theorem provider_failure_records_no_turn:
  assumes "calls (ask_question ev st req) = [p]" and "provider ev p = Inl e"
  shows "status_code (resp (ask_question ev st req)) = 500 \<and>
         payload (resp (ask_question ev st req)) =
           Error_body ((if is_key_error e then ''KeyError: ''
                        else ''Unexpected error: '' @ type_name e @ '': '') @ message e) \<and>
         (\<forall>t. history_in (store_after (ask_question ev st req)) t = history_in st t \<or>
              (session_key req = Some t \<and> history_in st t = None \<and>
               history_in (store_after (ask_question ev st req)) t = Some [])) \<and>
         (\<exists>k. session_key req = Some k \<and>
              history_in (store_after (ask_question ev st req)) k =
                Some (case history_in st k of None \<Rightarrow> [] | Some h \<Rightarrow> h)) \<and>
         (\<forall>k. session_key req = Some k \<and> history_in st k = None \<longrightarrow>
              history_in (store_after (ask_question ev st req)) k = Some [])"
proof -
  from calls_singleton [OF assms(1)] obtain kvs q k d where
    r: "req = Inr (JObj kvs)" "map_of kvs ''question'' = Some q"
       "hash_key (dict_get_default kvs ''session_id'' (JStr ''default_session'')) = Some k"
       "console ev (received_line ev
          (dict_get_default kvs ''session_id'' (JStr ''default_session'')) q) = None"
       "st = Dict d" "p = spec_prompt ev (turns_of d k) q"
    by blast
  let ?sid = "dict_get_default kvs ''session_id'' (JStr ''default_session'')"
  from r assms(2) have out: "ask_question ev st req =
      \<lparr>resp = caught e, store_after = Dict (ensured d ?sid k), calls = [p]\<rparr>"
    by (simp add: ask_question_printed ask_session_dict)
  have sk: "session_key req = Some k"
    using r by (simp add: session_key_def)
  have frame: "history_in (store_after (ask_question ev st req)) t = history_in st t \<or>
      (session_key req = Some t \<and> history_in st t = None \<and>
       history_in (store_after (ask_question ev st req)) t = Some [])" for t
    unfolding out sk using ensured_history [OF r(3), of d t]
    by (auto simp: r(5))
  have held: "history_in (store_after (ask_question ev st req)) k =
      Some (case history_in st k of None \<Rightarrow> [] | Some h \<Rightarrow> h)"
    unfolding out using ensured_lookup [OF r(3), of d]
    by (simp add: r(5) turns_of_def)
  have created: "history_in (store_after (ask_question ev st req)) k' = Some []"
    if "session_key req = Some k' \<and> history_in st k' = None" for k'
    using that held sk by simp
  have "status_code (resp (ask_question ev st req)) = 500"
    unfolding out by (simp add: caught_def)
  moreover have "payload (resp (ask_question ev st req)) =
      Error_body ((if is_key_error e then ''KeyError: ''
                   else ''Unexpected error: '' @ type_name e @ '': '') @ message e)"
    unfolding out by (simp add: caught_def)
  ultimately show ?thesis using frame held sk created by blast
qed

theorem provider_failure_records_no_turn_witness:
  "calls (ask_question failing_env initial_store (question_body (JStr ''hi''))) = [JStr ''hi''] \<and>
   provider failing_env (JStr ''hi'') = Inl quota_error \<and>
   status_code (resp (ask_question failing_env initial_store (question_body (JStr ''hi'')))) = 500 \<and>
   payload (resp (ask_question failing_env initial_store (question_body (JStr ''hi'')))) =
     Error_body ''Unexpected error: RateLimitError: quota exceeded'' \<and>
   history_in (store_after (ask_question failing_env initial_store (question_body (JStr ''hi''))))
     (HStr ''default_session'') = Some []"
proof -
  have m: "map_of [(''question'', JStr ''hi'')] ''question'' = Some (JStr ''hi'')"
    by simp
  have k: "hash_key (dict_get_default [(''question'', JStr ''hi'')] ''session_id''
              (JStr ''default_session'')) = Some (HStr ''default_session'')"
    by (simp add: dict_get_default_def)
  have f: "provider failing_env (JStr ''hi'') = Inl quota_error"
    by (simp add: failing_env_def)
  have c: "calls (ask_question failing_env initial_store (question_body (JStr ''hi''))) = [JStr ''hi'']"
    unfolding question_body_def ask_question_object [OF m] initial_store_def
      ask_session_dict [OF k]
    by (simp add: turns_of_def spec_prompt_def f failing_console)
  have sk: "session_key (question_body (JStr ''hi'')) = Some (HStr ''default_session'')"
    by (simp add: session_key_def question_body_def dict_get_default_def)
  have n: "history_in initial_store (HStr ''default_session'') = None"
    by (simp add: initial_store_def)
  from provider_failure_records_no_turn [OF c f] sk n
  have "status_code (resp (ask_question failing_env initial_store
           (question_body (JStr ''hi'')))) = 500"
    and "payload (resp (ask_question failing_env initial_store (question_body (JStr ''hi'')))) =
           Error_body ((if is_key_error quota_error then ''KeyError: ''
                        else ''Unexpected error: '' @ type_name quota_error @ '': '') @
                       message quota_error)"
    and "history_in (store_after (ask_question failing_env initial_store
           (question_body (JStr ''hi'')))) (HStr ''default_session'') = Some []"
    by blast+
  with c f show ?thesis
    by (simp add: quota_error_def)
qed

text \<open>
  The claim as stated fails: on the initial store (no sessions), a request whose provider
  call fails leaves the session \<^verbatim>\<open>default_session\<close> behind.
\<close>
theorem provider_failure_creates_session:
  "calls (ask_question failing_env initial_store (question_body (JStr ''hi''))) = [JStr ''hi''] \<and>
   provider failing_env (JStr ''hi'') = Inl quota_error \<and>
   sessions_of initial_store = [] \<and>
   sessions_of (store_after (ask_question failing_env initial_store (question_body (JStr ''hi'')))) =
     [JStr ''default_session'']"
proof -
  have m: "map_of [(''question'', JStr ''hi'')] ''question'' = Some (JStr ''hi'')"
    by simp
  have k: "hash_key (dict_get_default [(''question'', JStr ''hi'')] ''session_id''
              (JStr ''default_session'')) = Some (HStr ''default_session'')"
    by (simp add: dict_get_default_def)
  have f: "provider failing_env (JStr ''hi'') = Inl quota_error"
    by (simp add: failing_env_def)
  show ?thesis
    unfolding question_body_def ask_question_object [OF m] initial_store_def
      ask_session_dict [OF k]
    by (simp add: turns_of_def spec_prompt_def f failing_console ensured_def
          dict_get_default_def)
qed

lemma hex_digit_inj:
  assumes "a < 16" and "b < 16" and "hex_digit a = hex_digit b"
  shows "a = b"
proof -
  have d: "distinct ''0123456789abcdef''" by simp
  have l: "length ''0123456789abcdef'' = 16" by simp
  from nth_eq_iff_index_eq [OF d] assms l show "a = b"
    unfolding hex_digit_def by metis
qed

lemma nibble_less: "nibble u i < 16"
proof -
  have "drop_bit (4 * i) u AND 15 \<le> (15 :: 128 word)"
    by (rule word_and_le1)
  then have "unat (drop_bit (4 * i) u AND 15) \<le> unat (15 :: 128 word)"
    by (simp add: word_le_nat_alt)
  then show ?thesis by (simp add: nibble_def)
qed

lemma bit_nibble:
  assumes "m < 4"
  shows "bit u (4 * i + m) = bit (nibble u i) m"
proof -
  have "bit (mask 4 :: 128 word) m"
    using assms by (simp add: bit_mask_iff)
  moreover have "(mask 4 :: 128 word) = 15"
    by (simp add: mask_eq_exp_minus_1)
  ultimately have f: "bit (15 :: 128 word) m" by simp
  have "bit (drop_bit (4 * i) u AND 15) m = bit u (4 * i + m)"
    using f by (simp add: bit_and_iff bit_drop_bit_eq)
  then show ?thesis
    using assms by (simp add: nibble_def bit_unsigned_iff possible_bit_def)
qed

lemma hex32_inj:
  assumes "hex32 u = hex32 v"
  shows "u = v"
proof (rule bit_word_eqI)
  fix n assume n: "n < LENGTH(128)"
  then have i: "n div 4 < 32" by simp
  from assms have "\<forall>i \<in> set (rev [0..<32]). hex_digit (nibble u i) = hex_digit (nibble v i)"
    unfolding hex32_def by (simp only: map_eq_conv)
  with i have "hex_digit (nibble u (n div 4)) = hex_digit (nibble v (n div 4))"
    by simp
  then have e: "nibble u (n div 4) = nibble v (n div 4)"
    by (rule hex_digit_inj [OF nibble_less nibble_less])
  have m: "n mod 4 < 4" by simp
  have "n = 4 * (n div 4) + n mod 4" by simp
  then have "bit u n = bit u (4 * (n div 4) + n mod 4)"
    and "bit v n = bit v (4 * (n div 4) + n mod 4)"
    by simp_all
  then show "bit u n = bit v n"
    using bit_nibble [OF m, of u "n div 4"] bit_nibble [OF m, of v "n div 4"] e by simp
qed

lemma length_hex32: "length (hex32 u) = 32"
  by (simp add: hex32_def)

lemma regroup:
  assumes "length x = 32" "length y = 32"
    and "take 8 x @ ''-'' @ take 4 (drop 8 x) @ ''-'' @ take 4 (drop 12 x) @ ''-'' @
         take 4 (drop 16 x) @ ''-'' @ drop 20 x =
         take 8 y @ ''-'' @ take 4 (drop 8 y) @ ''-'' @ take 4 (drop 12 y) @ ''-'' @
         take 4 (drop 16 y) @ ''-'' @ drop 20 y"
  shows "x = (y :: string)"
proof -
  from assms have p: "take 8 x = take 8 y" "take 4 (drop 8 x) = take 4 (drop 8 y)"
    "take 4 (drop 12 x) = take 4 (drop 12 y)" "take 4 (drop 16 x) = take 4 (drop 16 y)"
    "drop 20 x = drop 20 y"
    by simp_all
  have s: "z = take 8 z @ take 4 (drop 8 z) @ take 4 (drop 12 z) @ take 4 (drop 16 z) @ drop 20 z"
    for z :: string
  proof -
    have "drop 16 z = take 4 (drop 16 z) @ drop 20 z"
      using append_take_drop_id [of 4 "drop 16 z"] by simp
    moreover have "drop 12 z = take 4 (drop 12 z) @ drop 16 z"
      using append_take_drop_id [of 4 "drop 12 z"] by simp
    moreover have "drop 8 z = take 4 (drop 8 z) @ drop 12 z"
      using append_take_drop_id [of 4 "drop 8 z"] by simp
    moreover have "z = take 8 z @ drop 8 z" by simp
    ultimately show ?thesis by metis
  qed
  show ?thesis using s [of x] s [of y] p by simp
qed

lemma uuid_str_inj: "uuid_str u = uuid_str v \<Longrightarrow> u = v"
  unfolding uuid_str_def Let_def
  by (rule hex32_inj, rule regroup [OF length_hex32 length_hex32])

lemma length_uuid_str: "length (uuid_str u) = 36"
  by (simp add: uuid_str_def Let_def length_hex32)

text \<open>
  Claim C8. \<^verbatim>\<open>generate_session\<close> answers with status 200, \<^verbatim>\<open>"success"\<close> and the 128-bit
  identifier rendered as 36 characters of text; the rendering loses nothing, so two
  different identifier values give two different session id strings and two different
  responses.
\<close>
theorem generated_ids_distinct:
  "generate_session u =
     \<lparr>status_code = 200, payload = Session_id_body (uuid_str u) ''success''\<rparr> \<and>
   length (uuid_str u) = 36 \<and>
   (u \<noteq> v \<longrightarrow> uuid_str u \<noteq> uuid_str v \<and> generate_session u \<noteq> generate_session v)"
  using uuid_str_inj [of u v]
  by (auto simp: generate_session_def Let_def length_uuid_str)

lemma hex32_1: "hex32 1 = ''00000000000000000000000000000001''"
  by (simp add: hex32_def nibble_def hex_digit_def upt_rec [of _ "numeral _"] drop_bit_eq_div)

theorem generated_ids_distinct_witness:
  "(1 :: 128 word) \<noteq> 2 \<and>
   uuid_str 1 = ''00000000-0000-0000-0000-000000000001'' \<and>
   uuid_str 1 \<noteq> uuid_str 2 \<and> generate_session 1 \<noteq> generate_session 2"
proof -
  have h: "(1 :: 128 word) \<noteq> 2" by simp
  have r: "uuid_str 1 = ''00000000-0000-0000-0000-000000000001''"
    by (simp add: uuid_str_def hex32_1)
  from h generated_ids_distinct [of 1 2]
  have "uuid_str 1 \<noteq> uuid_str 2 \<and> generate_session 1 \<noteq> generate_session 2"
    by blast
  with h r show ?thesis by blast
qed

lemma ask_session_status: "status_code (resp (ask_session ev st sid q)) \<noteq> 400"
  by (simp add: ask_session_def Let_def caught_status split: store.split option.split sum.split)

text \<open>
  Claim C9, as amended. The validation looks at the presence of the key only. A
  \<^verbatim>\<open>null\<close> body is answered with status 400; an object body is answered with status 400
  exactly when it has no key \<^verbatim>\<open>question\<close> (the empty object included), whatever value the
  key is bound to. When the key is present, line 106 has printed, the store is a dict and
  the session id is hashable, the provider is called once, with the prompt built from that
  value: the value itself when the session has no stored turns.
\<close>
theorem validation_presence_only:
  "status_code (resp (ask_question ev st (Inr JNull))) = 400 \<and>
   (status_code (resp (ask_question ev st (Inr (JObj kvs)))) = 400 \<longleftrightarrow>
      ''question'' \<notin> fst ` set kvs) \<and>
   (map_of kvs ''question'' = Some q \<and>
    console ev (received_line ev
      (dict_get_default kvs ''session_id'' (JStr ''default_session'')) q) = None \<and>
    hash_key (dict_get_default kvs ''session_id'' (JStr ''default_session'')) = Some k \<longrightarrow>
      calls (ask_question ev (Dict d) (Inr (JObj kvs))) = [spec_prompt ev (turns_of d k) q] \<and>
      (turns_of d k = [] \<longrightarrow> calls (ask_question ev (Dict d) (Inr (JObj kvs))) = [q]))"
proof (intro conjI impI)
  show "status_code (resp (ask_question ev st (Inr JNull))) = 400"
    by (simp add: ask_question_def missing_status)
  show "(status_code (resp (ask_question ev st (Inr (JObj kvs)))) = 400) =
        (''question'' \<notin> fst ` set kvs)"
  proof (cases "map_of kvs ''question''")
    case None
    then have "''question'' \<notin> fst ` set kvs" by (simp add: map_of_eq_None_iff)
    then show ?thesis by (simp add: ask_question_no_key missing_status)
  next
    case (Some q)
    then have "''question'' \<in> fst ` set kvs"
      by (metis map_of_eq_None_iff option.distinct(1))
    with Some show ?thesis
      by (simp add: ask_question_object ask_session_status caught_status split: option.split)
  qed
next
  assume a: "map_of kvs ''question'' = Some q \<and>
    console ev (received_line ev
      (dict_get_default kvs ''session_id'' (JStr ''default_session'')) q) = None \<and>
    hash_key (dict_get_default kvs ''session_id'' (JStr ''default_session'')) = Some k"
  then show c: "calls (ask_question ev (Dict d) (Inr (JObj kvs))) = [spec_prompt ev (turns_of d k) q]"
    by (simp add: ask_question_printed ask_session_dict split: sum.split option.split)
  assume "turns_of d k = []"
  with c show "calls (ask_question ev (Dict d) (Inr (JObj kvs))) = [q]"
    by (simp add: spec_prompt_def)
qed

theorem validation_presence_only_witness:
  "map_of [(''question'', JNull)] ''question'' = Some JNull \<and>
   console answering_env (received_line answering_env
      (dict_get_default [(''question'', JNull)] ''session_id'' (JStr ''default_session''))
      JNull) = None \<and>
   hash_key (dict_get_default [(''question'', JNull)] ''session_id'' (JStr ''default_session'')) =
     Some (HStr ''default_session'') \<and>
   turns_of [] (HStr ''default_session'') = [] \<and>
   calls (ask_question answering_env (Dict []) (Inr (JObj [(''question'', JNull)]))) = [JNull] \<and>
   status_code (resp (ask_question answering_env (Dict []) (Inr (JObj [(''question'', JNull)]))))
     \<noteq> 400"
proof -
  have h: "map_of [(''question'', JNull)] ''question'' = Some JNull \<and>
   console answering_env (received_line answering_env
      (dict_get_default [(''question'', JNull)] ''session_id'' (JStr ''default_session''))
      JNull) = None \<and>
   hash_key (dict_get_default [(''question'', JNull)] ''session_id'' (JStr ''default_session'')) =
     Some (HStr ''default_session'')"
    by (simp add: dict_get_default_def answering_console)
  have t: "turns_of [] (HStr ''default_session'') = []"
    by (simp add: turns_of_def)
  from h t validation_presence_only [where ev = answering_env and st = "Dict []"
      and kvs = "[(''question'', JNull)]" and q = JNull and k = "HStr ''default_session''"
      and d = "[]"]
  have "calls (ask_question answering_env (Dict []) (Inr (JObj [(''question'', JNull)]))) = [JNull]"
    and "status_code (resp (ask_question answering_env (Dict [])
           (Inr (JObj [(''question'', JNull)])))) \<noteq> 400"
    by auto
  with h t show ?thesis by blast
qed

text \<open>
  The claim as stated fails: an object body with the key \<^verbatim>\<open>question\<close> and a list as
  \<^verbatim>\<open>session_id\<close> passes the validation, yet the provider is not called (line 108 raises on
  the unhashable key).
\<close>
theorem unhashable_session_skips_provider:
  "map_of [(''question'', JStr ''hi''), (''session_id'', JArr [])] ''question'' = Some (JStr ''hi'') \<and>
   calls (ask_question answering_env initial_store (session_body (JStr ''hi'') (JArr []))) = [] \<and>
   status_code (resp (ask_question answering_env initial_store
                        (session_body (JStr ''hi'') (JArr [])))) = 500"
proof -
  have m: "map_of [(''question'', JStr ''hi''), (''session_id'', JArr [])] ''question'' =
           Some (JStr ''hi'')"
    by simp
  show ?thesis
    unfolding session_body_def ask_question_object [OF m] initial_store_def
    by (simp add: ask_session_def dict_get_default_def caught_status answering_console)
qed

end
